theory Spec2Isabelle
  imports Main
begin

section \<open>The VideoCall component of peerjs-poc\<close>

text \<open>
  A shallow embedding of \<^verbatim>\<open>src/app/components/VideoCall.tsx\<close>. The component is a set
  of event handlers over eight \<^verbatim>\<open>useState\<close> cells and five \<^verbatim>\<open>useRef\<close> cells. Every
  handler becomes a function from the component's state to its next state. What the
  handlers do to objects outside the component is kept in the same record:
  \<^item> media streams live in a heap \<open>streams\<close> from stream handles to track lists, because
    the same stream object is reachable from \<^verbatim>\<open>localStreamRef\<close> and from a video element;
  \<^item> calls on the PeerJS objects and on the browser (\<^verbatim>\<open>new Peer\<close>, \<^verbatim>\<open>destroy\<close>,
    \<^verbatim>\<open>call\<close>, \<^verbatim>\<open>answer\<close>, \<^verbatim>\<open>close\<close>, \<^verbatim>\<open>getUserMedia\<close>, \<^verbatim>\<open>alert\<close>) are appended to the
    trace \<open>apiCalls\<close>, in program order;
  \<^item> \<^verbatim>\<open>console\<close> output is appended to \<open>console\<close>;
  \<^item> \<^verbatim>\<open>setTimeout\<close>/\<^verbatim>\<open>clearTimeout\<close> act on the map \<open>timers\<close> of pending timers, each
    with its delay in milliseconds (the browser hands out the timer ids, here the
    counter \<open>nextTimer\<close>; when a pending timer expires is the browser's business, and
    its expiry is the event \<open>fireTimer\<close>), and \<^verbatim>\<open>call.on\<close> on the list \<open>listeners\<close>.
  What the environment decides (the value of \<^verbatim>\<open>Math.random\<close>, whether \<^verbatim>\<open>getUserMedia\<close>
  resolves, whether \<^verbatim>\<open>peer.call\<close> throws, which event arrives next) is an argument of
  the handler concerned.
\<close>

subsection \<open>Data\<close>

type_synonym stream_ref = nat
type_synonym conn_ref = nat
type_synonym peer_ref = nat
type_synonym timer_id = nat

text \<open>The type of \<^verbatim>\<open>connectionStatus\<close> (line 24).\<close>

datatype connection_status = Connecting | Connected | Error | Disconnected

text \<open>
  A \<^verbatim>\<open>MediaStreamTrack\<close>: its kind, its \<^verbatim>\<open>enabled\<close> flag and its \<^verbatim>\<open>readyState\<close>.
  \<^verbatim>\<open>track.stop()\<close> sets \<^verbatim>\<open>readyState\<close> to \<^verbatim>\<open>"ended"\<close>.
\<close>

datatype track_kind = Audio | Video

datatype ready_state = Live | Ended

record track =
  kind :: track_kind
  enabled :: bool
  readyState :: ready_state

text \<open>An \<^verbatim>\<open>HTMLVideoElement\<close>, of which the component uses \<^verbatim>\<open>srcObject\<close> only.\<close>

record video_element =
  srcObject :: "stream_ref option"

text \<open>The error object handed to the peer's \<^verbatim>\<open>error\<close> listener.\<close>

record peer_error =
  err_type :: string
  err_message :: string

datatype api_call =
    NewPeer peer_ref string
  | PeerDestroy peer_ref
  | PeerReconnect peer_ref
  | PeerCall peer_ref string stream_ref
  | GetUserMedia bool bool
  | Answer conn_ref stream_ref
  | Close conn_ref
  | Alert string

text \<open>
  \<open>GetUserMedia v a\<close> is \<^verbatim>\<open>getUserMedia({video: v, audio: a})\<close>. A console entry keeps
  the method and the string arguments; an argument that is an object (a style sheet, a
  caught exception) and the pictographs of the source's messages are left out.
\<close>

datatype console_entry =
    ConsoleLog "string list"
  | ConsoleWarn "string list"
  | ConsoleError "string list"
  | ConsoleGroup "string list"
  | ConsoleGroupEnd

text \<open>
  The callback of a pending timer. The callback of lines 65--71 reads the variable
  \<^verbatim>\<open>connectionStatus\<close> of the render in which the effect ran: a \<^verbatim>\<open>const\<close> of that
  render, so the value is fixed when the timer is armed and is carried by the timer.
  The callback of lines 256--262 reads refs only.
\<close>

datatype timer_callback = ConnectionTimeout connection_status | CallTimeout

text \<open>
  The listeners a call object gets: line 211 (incoming call) and lines 264, 271, 276
  (outgoing call), the latter closing over the timer of line 256.
\<close>

datatype conn_listener =
    IncomingStream
  | OutgoingStream timer_id
  | OutgoingClose timer_id
  | OutgoingError timer_id

datatype conn_event = StreamEvent stream_ref | CloseEvent | ErrorEvent string

record video_call =
  actualUsername :: string
  peerId :: string
  remotePeerId :: string
  peer :: "peer_ref option"
  callActive :: bool
  isMuted :: bool
  isVideoOff :: bool
  connectionStatus :: connection_status
  stableIdRef :: string
  localVideoRef :: "video_element option"
  remoteVideoRef :: "video_element option"
  localStreamRef :: "stream_ref option"
  connectionRef :: "conn_ref option"
  streams :: "stream_ref \<Rightarrow> track list"
  apiCalls :: "api_call list"
  console :: "console_entry list"
  timers :: "timer_id \<rightharpoonup> nat \<times> timer_callback"
  nextTimer :: timer_id
  listeners :: "(conn_ref \<times> conn_listener) list"
  nextPeer :: peer_ref
  effectCleanup :: "(peer_ref \<times> timer_id) option"

text \<open>
  The first eight fields are the \<^verbatim>\<open>useState\<close> cells (lines 16--24), the next five the
  refs (lines 14, 26--30); a ref that is \<^verbatim>\<open>null\<close> or \<^verbatim>\<open>undefined\<close> is \<open>None\<close>.
  \<open>effectCleanup\<close> is React's record of the clean-up function the last run of the
  effect returned: the peer and the timer it closes over.
\<close>

subsection \<open>Helpers\<close>

definition api :: "api_call \<Rightarrow> video_call \<Rightarrow> video_call" where
  "api c s = s\<lparr>apiCalls := apiCalls s @ [c]\<rparr>"

definition alert :: "string \<Rightarrow> video_call \<Rightarrow> video_call" where
  "alert msg s = api (Alert msg) s"

definition consoleOut :: "console_entry list \<Rightarrow> video_call \<Rightarrow> video_call" where
  "consoleOut es s = s\<lparr>console := console s @ es\<rparr>"

definition setTimeout :: "timer_callback \<Rightarrow> nat \<Rightarrow> video_call \<Rightarrow> video_call" where
  "setTimeout cb delay s =
     s\<lparr>timers := (timers s)(nextTimer s \<mapsto> (delay, cb)), nextTimer := Suc (nextTimer s)\<rparr>"

definition clearTimeout :: "timer_id \<Rightarrow> video_call \<Rightarrow> video_call" where
  "clearTimeout tid s = s\<lparr>timers := (timers s)(tid := None)\<rparr>"

text \<open>\<^verbatim>\<open>ref.current?.srcObject\<close>, and \<^verbatim>\<open>if (ref.current) ref.current.srcObject = v\<close>.\<close>

definition srcOf :: "video_element option \<Rightarrow> stream_ref option" where
  "srcOf r = (case r of None \<Rightarrow> None | Some v \<Rightarrow> srcObject v)"

definition setSrc :: "stream_ref option \<Rightarrow> video_element option \<Rightarrow> video_element option" where
  "setSrc v r = (case r of None \<Rightarrow> None | Some e \<Rightarrow> Some (e\<lparr>srcObject := v\<rparr>))"

text \<open>The tracks reached through a stream handle; none through \<^verbatim>\<open>null\<close>.\<close>

definition tracksOf :: "video_call \<Rightarrow> stream_ref option \<Rightarrow> track list" where
  "tracksOf s r = (case r of None \<Rightarrow> [] | Some st \<Rightarrow> streams s st)"

definition stopAll :: "stream_ref \<Rightarrow> video_call \<Rightarrow> video_call" where
  "stopAll st s = s\<lparr>streams := (streams s)(st := map (\<lambda>t. t\<lparr>readyState := Ended\<rparr>) (streams s st))\<rparr>"

definition flipKind :: "track_kind \<Rightarrow> stream_ref \<Rightarrow> video_call \<Rightarrow> video_call" where
  "flipKind k st s =
     s\<lparr>streams := (streams s)(st :=
          map (\<lambda>t. if kind t = k then t\<lparr>enabled := \<not> enabled t\<rparr> else t) (streams s st))\<rparr>"

text \<open>Decimal digits of a number, for \<^verbatim>\<open>'user_' + Math.floor(Math.random() * 1000)\<close>.\<close>

definition digit_char :: "nat \<Rightarrow> char" where
  "digit_char d = ''0123456789'' ! d"

function string_of_nat :: "nat \<Rightarrow> string" where
  "string_of_nat n =
     (if n < 10 then [digit_char n] else string_of_nat (n div 10) @ [digit_char (n mod 10)])"
  by pat_completeness auto
termination
  by (relation "measure id") auto

subsection \<open>Ending a call and the toggles (lines 290--353)\<close>

text \<open>
  \<^verbatim>\<open>endCall\<close> wraps \<^verbatim>\<open>close()\<close>, \<^verbatim>\<open>getTracks()\<close> and \<^verbatim>\<open>stop()\<close> in \<^verbatim>\<open>try\<close> blocks whose
  handlers only write to the console and then go on with the next statement. The
  model takes the three calls as the platform defines them (they return), so the
  handlers are not entered. Events that the library may emit while \<^verbatim>\<open>close()\<close> runs
  are separate events of the model.
\<close>

definition endCall :: "video_call \<Rightarrow> video_call" where
  "endCall s =
     (let s1 = (case connectionRef s of
                  None \<Rightarrow> s
                | Some c \<Rightarrow> (api (Close c) s)\<lparr>connectionRef := None\<rparr>);
          s2 = (case localStreamRef s1 of
                  None \<Rightarrow> s1
                | Some st \<Rightarrow> (stopAll st s1)\<lparr>localStreamRef := None\<rparr>);
          s3 = s2\<lparr>localVideoRef := setSrc None (localVideoRef s2)\<rparr>;
          s4 = s3\<lparr>remoteVideoRef := setSrc None (remoteVideoRef s3)\<rparr>
      in s4\<lparr>callActive := False, remotePeerId := [], isMuted := False, isVideoOff := False\<rparr>)"

definition toggleMute :: "video_call \<Rightarrow> video_call" where
  "toggleMute s =
     (case localStreamRef s of
        None \<Rightarrow> s
      | Some st \<Rightarrow> (flipKind Audio st s)\<lparr>isMuted := \<not> isMuted s\<rparr>)"

definition toggleVideo :: "video_call \<Rightarrow> video_call" where
  "toggleVideo s =
     (case localStreamRef s of
        None \<Rightarrow> s
      | Some st \<Rightarrow> (flipKind Video st s)\<lparr>isVideoOff := \<not> isVideoOff s\<rparr>)"

subsection \<open>Incoming calls (lines 89--111 and 202--216)\<close>

definition handleIncomingCall :: "conn_ref \<Rightarrow> stream_ref \<Rightarrow> video_call \<Rightarrow> video_call" where
  "handleIncomingCall call stream s =
     (let s1 = s\<lparr>localStreamRef := Some stream\<rparr>;
          s2 = s1\<lparr>localVideoRef := setSrc (Some stream) (localVideoRef s1)\<rparr>;
          s3 = api (Answer call stream) s2;
          s4 = s3\<lparr>callActive := True\<rparr>
      in s4\<lparr>listeners := listeners s4 @ [(call, IncomingStream)]\<rparr>)"

text \<open>
  \<^verbatim>\<open>getMedia\<close> awaits \<^verbatim>\<open>getUserMedia\<close> up to twice. \<open>r1\<close> is what the first request
  settles to (\<open>Some stream\<close> when it resolves, \<open>None\<close> when it rejects) and \<open>r2\<close> what the
  second one does; \<open>r2\<close> is read only when the first request was rejected. The
  handler and the continuations after its \<^verbatim>\<open>await\<close>s are one step of the model: no
  other event runs between a request and its settlement. The same holds for
  \<^verbatim>\<open>startCall\<close> below.
\<close>

definition getMedia ::
    "conn_ref \<Rightarrow> stream_ref option \<Rightarrow> stream_ref option \<Rightarrow> video_call \<Rightarrow> video_call" where
  "getMedia call r1 r2 s =
     (let s1 = api (GetUserMedia True True) s in
      case r1 of
        Some stream \<Rightarrow> handleIncomingCall call stream s1
      | None \<Rightarrow>
          (let s2 = consoleOut [ConsoleError [''Failed to get video+audio: '']] s1;
               s3 = api (GetUserMedia False True) s2 in
           case r2 of
             Some audioStream \<Rightarrow> handleIncomingCall call audioStream s3
           | None \<Rightarrow>
               alert ''Could not access camera or microphone. Please check permissions.''
                 (consoleOut [ConsoleError [''Failed to get audio-only stream:'']] s3)))"

definition onCall ::
    "conn_ref \<Rightarrow> stream_ref option \<Rightarrow> stream_ref option \<Rightarrow> video_call \<Rightarrow> video_call" where
  "onCall call r1 r2 s = getMedia call r1 r2 (s\<lparr>connectionRef := Some call\<rparr>)"

subsection \<open>Outgoing calls (lines 218--288)\<close>

text \<open>
  \<open>co\<close> is what \<^verbatim>\<open>peer.call(remotePeerId, stream)\<close> does: \<open>Some call\<close> when it returns the
  connection, \<open>None\<close> when it throws.
\<close>

definition makeOutgoingCall :: "stream_ref \<Rightarrow> conn_ref option \<Rightarrow> video_call \<Rightarrow> video_call" where
  "makeOutgoingCall stream co s =
     (case peer s of
        None \<Rightarrow> s
      | Some p \<Rightarrow>
          if remotePeerId s = [] then s
          else
            (let s1 = s\<lparr>localStreamRef := Some stream\<rparr>;
                 s2 = s1\<lparr>localVideoRef := setSrc (Some stream) (localVideoRef s1)\<rparr>;
                 s3 = api (PeerCall p (remotePeerId s) stream) s2 in
             case co of
               None \<Rightarrow>
                 alert ''Failed to establish call. Please try again.''
                   (consoleOut [ConsoleError [''Error making call:'']] s3)
             | Some call \<Rightarrow>
                 (let s4 = s3\<lparr>connectionRef := Some call\<rparr>;
                      connectionTimeout = nextTimer s4;
                      s5 = setTimeout CallTimeout 15000 s4;
                      s6 = s5\<lparr>listeners := listeners s5 @
                             [(call, OutgoingStream connectionTimeout),
                              (call, OutgoingClose connectionTimeout),
                              (call, OutgoingError connectionTimeout)]\<rparr>
                  in s6\<lparr>callActive := True\<rparr>)))"

definition startCall ::
    "stream_ref option \<Rightarrow> stream_ref option \<Rightarrow> conn_ref option \<Rightarrow> video_call \<Rightarrow> video_call" where
  "startCall r1 r2 co s =
     (if peer s = None \<or> remotePeerId s = [] then s
      else
        (let s1 = api (GetUserMedia True True) s in
         case r1 of
           Some stream \<Rightarrow> makeOutgoingCall stream co s1
         | None \<Rightarrow>
             (let s2 = consoleOut [ConsoleError [''Failed to get video+audio stream:'']] s1;
                  s3 = api (GetUserMedia False True) s2 in
              case r2 of
                Some audioStream \<Rightarrow>
                  alert ''Video is not available. Proceeding with audio only.''
                    ((makeOutgoingCall audioStream co s3)\<lparr>isVideoOff := True\<rparr>)
              | None \<Rightarrow>
                  alert ''Could not access camera or microphone. Please check permissions.''
                    (consoleOut [ConsoleError [''Failed to get audio-only stream:'']] s3))))"

subsection \<open>Events of a call object and timers\<close>

definition attachRemote :: "stream_ref \<Rightarrow> video_call \<Rightarrow> video_call" where
  "attachRemote remoteStream s = s\<lparr>remoteVideoRef := setSrc (Some remoteStream) (remoteVideoRef s)\<rparr>"

fun runListener :: "conn_listener \<Rightarrow> conn_event \<Rightarrow> video_call \<Rightarrow> video_call" where
  "runListener IncomingStream (StreamEvent remoteStream) s = attachRemote remoteStream s"
| "runListener (OutgoingStream connectionTimeout) (StreamEvent remoteStream) s =
     attachRemote remoteStream (clearTimeout connectionTimeout s)"
| "runListener (OutgoingClose connectionTimeout) CloseEvent s =
     endCall (clearTimeout connectionTimeout s)"
| "runListener (OutgoingError connectionTimeout) (ErrorEvent msg) s =
     endCall (alert (''Call error: '' @ msg)
       (consoleOut [ConsoleError [''Call error:'']] (clearTimeout connectionTimeout s)))"
| "runListener _ _ s = s"

text \<open>
  An event of the call object \<open>call\<close> runs the listeners registered on it, in the order
  of their registration.
\<close>

definition emit :: "conn_ref \<Rightarrow> conn_event \<Rightarrow> video_call \<Rightarrow> video_call" where
  "emit call ev s =
     fold (\<lambda>l. runListener l ev) (map snd (filter (\<lambda>e. fst e = call) (listeners s))) s"

fun runTimer :: "timer_callback \<Rightarrow> video_call \<Rightarrow> video_call" where
  "runTimer (ConnectionTimeout captured) s =
     (if captured = Connecting
      then (consoleOut [ConsoleError [''Connection timed out'']] s)\<lparr>connectionStatus := Error\<rparr>
      else s)"
| "runTimer CallTimeout s =
     (case srcOf (remoteVideoRef s) of
        None \<Rightarrow>
          endCall (alert ''Could not connect to peer. Please check the remote ID and try again.''
            (consoleOut [ConsoleError [''Connection timed out'']] s))
      | Some _ \<Rightarrow> s)"

text \<open>
  A timer fires once, and only while it is pending: after \<^verbatim>\<open>clearTimeout\<close> its
  expiry does nothing.
\<close>

definition fireTimer :: "timer_id \<Rightarrow> video_call \<Rightarrow> video_call" where
  "fireTimer tid s =
     (case timers s tid of
        None \<Rightarrow> s
      | Some (delay, cb) \<Rightarrow> runTimer cb (clearTimeout tid s))"

subsection \<open>The signalling peer (lines 40--199) and the retry (lines 356--389)\<close>

text \<open>
  The effect body. \<open>r\<close> is the render whose closure the effect is: the body reads
  \<^verbatim>\<open>peer\<close>, \<^verbatim>\<open>actualUsername\<close> and \<^verbatim>\<open>connectionStatus\<close> from it. \<open>s\<close> is the state the
  body acts on. A \<^verbatim>\<open>setState\<close> call changes \<open>s\<close>, never \<open>r\<close>.
\<close>

definition initEffect :: "video_call \<Rightarrow> video_call \<Rightarrow> video_call" where
  "initEffect r s =
     (case peer r of
        Some _ \<Rightarrow> s\<lparr>effectCleanup := None\<rparr>
      | None \<Rightarrow>
          (let s1 = s\<lparr>connectionStatus := Connecting\<rparr>;
               s2 = consoleOut [ConsoleLog [''Attempting to connect with ID:'', actualUsername r]] s1;
               newPeer = nextPeer s2;
               s3 = (api (NewPeer newPeer (actualUsername r)) s2)\<lparr>nextPeer := Suc newPeer\<rparr>;
               connectionTimeout = nextTimer s3;
               s4 = setTimeout (ConnectionTimeout (connectionStatus r)) 15000 s3;
               s5 = s4\<lparr>peer := Some newPeer\<rparr>
           in s5\<lparr>effectCleanup := Some (newPeer, connectionTimeout)\<rparr>))"

text \<open>The clean-up function the effect returns (lines 185--198).\<close>

definition cleanup :: "peer_ref \<times> timer_id \<Rightarrow> video_call \<Rightarrow> video_call" where
  "cleanup c s =
     (let s1 = clearTimeout (snd c) s;
          s2 = (case localStreamRef s1 of None \<Rightarrow> s1 | Some st \<Rightarrow> stopAll st s1);
          s3 = api (PeerDestroy (fst c)) s2
      in s3\<lparr>connectionStatus := Disconnected\<rparr>)"

text \<open>
  The first render and the first run of the effect. \<open>username\<close> is the prop, \<open>rnd\<close> the
  value of \<^verbatim>\<open>Math.floor(Math.random() * 1000)\<close> on line 14, \<open>heap\<close> the media streams
  of the page. The two video elements are in the document when the effect runs.
\<close>

definition initial :: "string option \<Rightarrow> nat \<Rightarrow> (stream_ref \<Rightarrow> track list) \<Rightarrow> video_call" where
  "initial username rnd heap =
     \<lparr>actualUsername =
        (case username of
           None \<Rightarrow> ''user_'' @ string_of_nat rnd
         | Some u \<Rightarrow> if u = [] then ''user_'' @ string_of_nat rnd else u),
      peerId = [],
      remotePeerId = [],
      peer = None,
      callActive = False,
      isMuted = False,
      isVideoOff = False,
      connectionStatus = Disconnected,
      stableIdRef = ''user_'' @ string_of_nat rnd,
      localVideoRef = Some \<lparr>srcObject = None\<rparr>,
      remoteVideoRef = Some \<lparr>srcObject = None\<rparr>,
      localStreamRef = None,
      connectionRef = None,
      streams = heap,
      apiCalls = [],
      console = [],
      timers = Map.empty,
      nextTimer = 0,
      listeners = [],
      nextPeer = 0,
      effectCleanup = None\<rparr>"

definition mount :: "string option \<Rightarrow> nat \<Rightarrow> (stream_ref \<Rightarrow> track list) \<Rightarrow> video_call" where
  "mount username rnd heap = initEffect (initial username rnd heap) (initial username rnd heap)"

text \<open>
  The listeners of the peer close over \<^verbatim>\<open>newPeer\<close> and \<^verbatim>\<open>connectionTimeout\<close> of the
  run of the effect that registered them.
\<close>

definition onOpen :: "timer_id \<Rightarrow> string \<Rightarrow> video_call \<Rightarrow> video_call" where
  "onOpen connectionTimeout ident s =
     (let s1 = consoleOut
                 [ConsoleLog [''%c Your Peer ID: '' @ ident],
                  ConsoleLog [''Copy this ID and share it with someone to start a call'']] s;
          s2 = s1\<lparr>peerId := ident\<rparr>;
          s3 = s2\<lparr>connectionStatus := Connected\<rparr>;
          s4 = clearTimeout connectionTimeout s3
      in consoleOut
           [ConsoleGroup ['' PeerJS Connection Info''],
            ConsoleLog [''Connection Status: Connected''],
            ConsoleLog [''Your ID: '' @ ident],
            ConsoleLog [''Use this ID to receive calls from others''],
            ConsoleGroupEnd] s4)"

definition onError :: "peer_error \<Rightarrow> video_call \<Rightarrow> video_call" where
  \<open>onError err s =
     (let s1 = consoleOut [ConsoleError [''%c Peer Connection Error'']] s in
      if err_type err = ''network'' \<or> err_type err = ''server-error''
           \<or> err_type err = ''socket-error''
      then (consoleOut
              [ConsoleGroup ['' Connection Troubleshooting''],
               ConsoleLog [''Network or server error detected. Your connection may be unstable.''],
               ConsoleLog [''Error type:'', err_type err],
               ConsoleLog [''Error message:'', err_message err],
               ConsoleLog [''Try the following:''],
               ConsoleLog [''1. Check your internet connection''],
               ConsoleLog [''2. Try using the "Retry Connection" button''],
               ConsoleLog [''3. Refresh the page if the issue persists''],
               ConsoleGroupEnd] s1)\<lparr>connectionStatus := Error\<rparr>
      else if err_type err = ''unavailable-id''
      then (consoleOut
              [ConsoleGroup ['' Connection Troubleshooting''],
               ConsoleLog [''The ID is already in use. This can happen if:''],
               ConsoleLog [''1. You have another tab open with the same ID''],
               ConsoleLog [''2. Someone else is using this ID''],
               ConsoleLog [''3. The server still thinks your previous connection is active''],
               ConsoleLog [''Try using the "Retry Connection" button to generate a new ID''],
               ConsoleGroupEnd] s1)\<lparr>connectionStatus := Error\<rparr>
      else if err_type err = ''browser-incompatible''
      then (consoleOut
              [ConsoleGroup ['' Connection Troubleshooting''],
               ConsoleLog [''Your browser may not support WebRTC or has it disabled.''],
               ConsoleLog [''Try using a modern browser like Chrome, Firefox, or Edge.''],
               ConsoleGroupEnd] s1)\<lparr>connectionStatus := Error\<rparr>
      else (consoleOut
              [ConsoleGroup ['' Connection Troubleshooting''],
               ConsoleLog [''An unknown error occurred. Details:''],
               ConsoleLog [''Error type:'', err_type err],
               ConsoleLog [''Error message:'', err_message err],
               ConsoleGroupEnd] s1)\<lparr>connectionStatus := Error\<rparr>)\<close>

definition onDisconnected :: "peer_ref \<Rightarrow> video_call \<Rightarrow> video_call" where
  "onDisconnected newPeer s =
     (let s1 = consoleOut
                 [ConsoleWarn [''%c Disconnected''],
                  ConsoleGroup ['' Reconnection Process''],
                  ConsoleLog [''Disconnected from the PeerJS server. This may be due to:''],
                  ConsoleLog [''1. Network interruption''],
                  ConsoleLog [''2. Server maintenance''],
                  ConsoleLog [''3. Inactivity timeout''],
                  ConsoleLog [''Attempting automatic reconnection...''],
                  ConsoleGroupEnd] s;
          s2 = s1\<lparr>connectionStatus := Disconnected\<rparr>
      in api (PeerReconnect newPeer) s2)"

definition onClose :: "video_call \<Rightarrow> video_call" where
  "onClose s =
     (consoleOut
        [ConsoleWarn [''%c Connection Closed''],
         ConsoleLog [''The connection was intentionally closed or could not be maintained.'']] s)
       \<lparr>connectionStatus := Disconnected\<rparr>"

text \<open>
  \<^verbatim>\<open>retryConnection\<close>; \<open>rnd\<close> is the value of \<^verbatim>\<open>Math.floor(Math.random() * 1000)\<close> on
  line 378, a number from 0 to 999.
\<close>

definition retryConnection :: "nat \<Rightarrow> video_call \<Rightarrow> video_call" where
  "retryConnection rnd s =
     (let s1 = consoleOut
                 [ConsoleLog [''%c Retrying Connection''],
                  ConsoleGroup [''Connection Retry Process''],
                  ConsoleLog [''Attempting to establish a new connection with a fresh ID'']] s;
          s2 = (case peer s of
                  None \<Rightarrow> s1
                | Some p \<Rightarrow>
                    (consoleOut [ConsoleLog [''Existing peer connection destroyed successfully'']]
                       (api (PeerDestroy p)
                          (consoleOut [ConsoleLog [''Cleaning up existing peer connection...'']] s1)))
                      \<lparr>peer := None\<rparr>);
          s3 = s2\<lparr>peerId := []\<rparr>;
          s4 = s3\<lparr>connectionStatus := Connecting\<rparr>;
          newId = ''user_'' @ string_of_nat rnd;
          s5 = s4\<lparr>stableIdRef := newId\<rparr>;
          s6 = consoleOut
                 [ConsoleLog [''Generated new connection ID:'', newId],
                  ConsoleLog [''Initializing new peer connection...''],
                  ConsoleGroupEnd] s5;
          s7 = alert ''Attempting to reconnect with a new ID. Please wait a moment...'' s6
      in s7\<lparr>actualUsername := newId\<rparr>)"

text \<open>
  After a handler has run, React renders again and re-runs the effect when its
  dependency \<^verbatim>\<open>actualUsername\<close> differs from the one of the previous render \<open>prev\<close>:
  first the clean-up function of the last run, then the body, as a closure of the new
  render \<open>s\<close>.
\<close>

definition commit :: "video_call \<Rightarrow> video_call \<Rightarrow> video_call" where
  "commit prev s =
     (if actualUsername s = actualUsername prev then s
      else initEffect s (case effectCleanup s of None \<Rightarrow> s | Some c \<Rightarrow> cleanup c s))"

definition retry :: "nat \<Rightarrow> video_call \<Rightarrow> video_call" where
  "retry rnd s = commit s (retryConnection rnd s)"

text \<open>The remote-identity field of the page (\<^verbatim>\<open>onChange\<close> of the input, line 451).\<close>

definition setRemotePeerId :: "string \<Rightarrow> video_call \<Rightarrow> video_call" where
  "setRemotePeerId v s = s\<lparr>remotePeerId := v\<rparr>"

subsection \<open>Example states\<close>

text \<open>
  A page whose user has a camera with a microphone (streams 10 and 11) and a lone
  microphone (stream 12). \<open>idle\<close> is the component after the first render and the
  peer's \<^verbatim>\<open>open\<close> event; \<open>in_call\<close> has answered the incoming call 1 with stream 10;
  in \<open>ready\<close> the user has entered a remote identity; \<open>failed\<close> is the component after
  the first render and an \<^verbatim>\<open>error\<close> event of the peer.
\<close>

definition camera :: "track list" where
  "camera = [\<lparr>kind = Audio, enabled = True, readyState = Live\<rparr>,
             \<lparr>kind = Video, enabled = True, readyState = Live\<rparr>]"

definition microphone :: "track list" where
  "microphone = [\<lparr>kind = Audio, enabled = True, readyState = Live\<rparr>]"

definition page_heap :: "stream_ref \<Rightarrow> track list" where
  "page_heap = (\<lambda>_. [])(10 := camera, 11 := camera, 12 := microphone)"

definition idle :: video_call where
  "idle = onOpen 0 ''user_7'' (mount None 7 page_heap)"

definition in_call :: video_call where
  "in_call = onCall 1 (Some 10) None idle"

definition ready :: video_call where
  "ready = setRemotePeerId ''user_9'' idle"

definition failed :: video_call where
  "failed = onError \<lparr>err_type = ''unavailable-id'', err_message = ''ID is taken''\<rparr>
              (mount None 7 page_heap)"

lemmas run_defs = mount_def initial_def initEffect_def onOpen_def onCall_def getMedia_def
  handleIncomingCall_def api_def alert_def consoleOut_def setTimeout_def clearTimeout_def
  setSrc_def srcOf_def tracksOf_def stopAll_def flipKind_def digit_char_def Let_def
  page_heap_def camera_def microphone_def idle_def in_call_def setRemotePeerId_def ready_def

section \<open>Properties\<close>

subsection \<open>Video surfaces and tracks\<close>

lemma setSrc_None_src [simp]: "srcOf (setSrc None r) = None"
  by (cases r) (simp_all add: srcOf_def setSrc_def)

lemma setSrc_idem [simp]: "setSrc v (setSrc v r) = setSrc v r"
  by (cases r) (simp_all add: setSrc_def)

lemma flipKind_kind: "map kind (streams (flipKind k st s) st) = map kind (streams s st)"
  by (simp add: flipKind_def comp_def)

lemma flipKind_readyState:
  "map readyState (streams (flipKind k st s) st) = map readyState (streams s st)"
  by (simp add: flipKind_def comp_def)

lemma flipKind_enabled:
  "map enabled (streams (flipKind k st s) st) =
     map (\<lambda>t. if kind t = k then \<not> enabled t else enabled t) (streams s st)"
  by (simp add: flipKind_def comp_def)

subsection \<open>Ending a call\<close>

text \<open>
  Claim C1. Whatever the state before (a call that is active, one that is pending, or
  none), after \<^verbatim>\<open>endCall()\<close> the connection handle is null and \<^verbatim>\<open>close()\<close> was called on
  the connection it held; the stream that was the local stream has the tracks it had,
  each with \<^verbatim>\<open>readyState\<close> ended and nothing else changed, so every one of them is
  stopped; the local stream handle is null; each video element is the element it was
  with \<^verbatim>\<open>srcObject\<close> null; the call is not active, and the mute and video-off flags are
  false.
\<close>

theorem endCall_clears_call_state:
  "connectionRef (endCall s) = None
   \<and> apiCalls (endCall s) =
       (case connectionRef s of None \<Rightarrow> apiCalls s | Some c \<Rightarrow> apiCalls s @ [Close c])
   \<and> tracksOf (endCall s) (localStreamRef s) =
       map (\<lambda>t. t\<lparr>readyState := Ended\<rparr>) (tracksOf s (localStreamRef s))
   \<and> length (tracksOf (endCall s) (localStreamRef s)) = length (tracksOf s (localStreamRef s))
   \<and> list_all (\<lambda>t. readyState t = Ended) (tracksOf (endCall s) (localStreamRef s))
   \<and> localStreamRef (endCall s) = None
   \<and> localVideoRef (endCall s) = map_option (\<lambda>v. v\<lparr>srcObject := None\<rparr>) (localVideoRef s)
   \<and> remoteVideoRef (endCall s) = map_option (\<lambda>v. v\<lparr>srcObject := None\<rparr>) (remoteVideoRef s)
   \<and> srcOf (localVideoRef (endCall s)) = None
   \<and> srcOf (remoteVideoRef (endCall s)) = None
   \<and> callActive (endCall s) = False
   \<and> isMuted (endCall s) = False
   \<and> isVideoOff (endCall s) = False"
proof -
  have v: "setSrc None r = map_option (\<lambda>v. v\<lparr>srcObject := None\<rparr>) r" for r
    by (cases r) (simp_all add: setSrc_def)
  show ?thesis
    by (cases "connectionRef s"; cases "localStreamRef s")
       (simp_all add: endCall_def api_def stopAll_def tracksOf_def list_all_iff v [symmetric])
qed

theorem endCall_clears_call_state_witness:
  "connectionRef in_call = Some 1 \<and> localStreamRef in_call = Some 10
   \<and> callActive in_call
   \<and> streams in_call 10 =
        [\<lparr>kind = Audio, enabled = True, readyState = Live\<rparr>,
         \<lparr>kind = Video, enabled = True, readyState = Live\<rparr>]
   \<and> localVideoRef in_call = Some \<lparr>srcObject = Some 10\<rparr>
   \<and> connectionRef (endCall in_call) = None
   \<and> apiCalls (endCall in_call) = apiCalls in_call @ [Close 1]
   \<and> streams (endCall in_call) 10 =
        [\<lparr>kind = Audio, enabled = True, readyState = Ended\<rparr>,
         \<lparr>kind = Video, enabled = True, readyState = Ended\<rparr>]
   \<and> localStreamRef (endCall in_call) = None
   \<and> localVideoRef (endCall in_call) = Some \<lparr>srcObject = None\<rparr>
   \<and> remoteVideoRef (endCall in_call) = Some \<lparr>srcObject = None\<rparr>
   \<and> \<not> callActive (endCall in_call)"
proof -
  have a: "connectionRef in_call = Some 1" "localStreamRef in_call = Some 10"
    "callActive in_call" "streams in_call 10 = camera"
    "localVideoRef in_call = Some \<lparr>srcObject = Some 10\<rparr>"
    "remoteVideoRef in_call = Some \<lparr>srcObject = None\<rparr>"
    by (simp_all add: run_defs)
  show ?thesis
    using endCall_clears_call_state [of in_call] a
    by (simp add: tracksOf_def camera_def)
qed

text \<open>
  Claim C2. \<^verbatim>\<open>endCall()\<close> is idempotent: twice in a row leaves the state that once
  leaves. With the connection handle and the local stream handle already null it
  closes nothing and stops nothing (the trace of calls and the heap of streams stay as
  they are), and what it leaves is the reset configuration.
\<close>

theorem endCall_idempotent:
  "endCall (endCall s) = endCall s
   \<and> (connectionRef s = None \<and> localStreamRef s = None \<longrightarrow>
        apiCalls (endCall s) = apiCalls s
        \<and> streams (endCall s) = streams s
        \<and> endCall s = s\<lparr>localVideoRef := setSrc None (localVideoRef s),
                         remoteVideoRef := setSrc None (remoteVideoRef s),
                         callActive := False, remotePeerId := [],
                         isMuted := False, isVideoOff := False\<rparr>)"
  by (cases "connectionRef s"; cases "localStreamRef s")
     (simp_all add: endCall_def api_def stopAll_def)

theorem endCall_idempotent_witness:
  "connectionRef idle = None \<and> localStreamRef idle = None
   \<and> endCall (endCall idle) = endCall idle
   \<and> apiCalls (endCall idle) = apiCalls idle
   \<and> streams (endCall idle) = streams idle
   \<and> endCall idle = idle"
  using endCall_idempotent [of idle]
  by (simp add: run_defs)

text \<open>
  Claim C10. \<^verbatim>\<open>endCall()\<close> also empties the remote identity, so that \<^verbatim>\<open>startCall\<close> does
  nothing until the user enters one again. Beyond the connection handle, the local
  stream (its handle and the \<^verbatim>\<open>readyState\<close> of its tracks), the two video surfaces, the
  call-active flag, the mute and video-off flags and the remote identity it changes no
  state: the other cells, the timers and the listeners are as before, the other
  streams are untouched, and the one call it makes is \<^verbatim>\<open>close()\<close> on the connection.
\<close>

theorem endCall_frame:
  "remotePeerId (endCall s) = []
   \<and> startCall r1 r2 co (endCall s) = endCall s
   \<and> actualUsername (endCall s) = actualUsername s
   \<and> peerId (endCall s) = peerId s
   \<and> peer (endCall s) = peer s
   \<and> connectionStatus (endCall s) = connectionStatus s
   \<and> stableIdRef (endCall s) = stableIdRef s
   \<and> timers (endCall s) = timers s
   \<and> nextTimer (endCall s) = nextTimer s
   \<and> listeners (endCall s) = listeners s
   \<and> nextPeer (endCall s) = nextPeer s
   \<and> effectCleanup (endCall s) = effectCleanup s
   \<and> streams (endCall s) =
       (case localStreamRef s of
          None \<Rightarrow> streams s
        | Some st \<Rightarrow> (streams s)(st := map (\<lambda>t. t\<lparr>readyState := Ended\<rparr>) (streams s st)))
   \<and> apiCalls (endCall s) =
       (case connectionRef s of None \<Rightarrow> apiCalls s | Some c \<Rightarrow> apiCalls s @ [Close c])"
  by (cases "connectionRef s"; cases "localStreamRef s")
     (simp_all add: endCall_def startCall_def api_def stopAll_def)

theorem endCall_frame_witness:
  "remotePeerId (endCall in_call) = []
   \<and> peerId in_call = ''user_7''
   \<and> peerId (endCall in_call) = ''user_7''
   \<and> connectionStatus (endCall in_call) = Connected
   \<and> peer (endCall in_call) = Some 0
   \<and> startCall (Some 11) None (Some 2) (endCall in_call) = endCall in_call
   \<and> streams (endCall in_call) 11 = streams in_call 11
   \<and> apiCalls (endCall in_call) = apiCalls in_call @ [Close 1]"
proof -
  have a: "connectionRef in_call = Some 1" "localStreamRef in_call = Some 10"
    "peerId in_call = ''user_7''" "connectionStatus in_call = Connected" "peer in_call = Some 0"
    by (simp_all add: run_defs)
  show ?thesis
    using endCall_frame [of in_call "Some 11" None "Some 2"] a by simp
qed

subsection \<open>Mute and video toggles\<close>

text \<open>
  Claim C9. With a local stream, \<^verbatim>\<open>toggleMute()\<close> negates \<^verbatim>\<open>enabled\<close> on exactly the
  audio tracks of that stream and \<^verbatim>\<open>toggleVideo()\<close> on exactly its video tracks (kinds
  and \<^verbatim>\<open>readyState\<close> stay, the matching flag of the component is negated). Without a local
  stream both leave the state as it is.
\<close>

theorem toggles_flip_tracks:
  "(localStreamRef s = Some st \<longrightarrow>
      map enabled (streams (toggleMute s) st) =
        map (\<lambda>t. if kind t = Audio then \<not> enabled t else enabled t) (streams s st)
      \<and> map kind (streams (toggleMute s) st) = map kind (streams s st)
      \<and> map readyState (streams (toggleMute s) st) = map readyState (streams s st)
      \<and> isMuted (toggleMute s) = (\<not> isMuted s)
      \<and> map enabled (streams (toggleVideo s) st) =
        map (\<lambda>t. if kind t = Video then \<not> enabled t else enabled t) (streams s st)
      \<and> map kind (streams (toggleVideo s) st) = map kind (streams s st)
      \<and> map readyState (streams (toggleVideo s) st) = map readyState (streams s st)
      \<and> isVideoOff (toggleVideo s) = (\<not> isVideoOff s))
   \<and> (localStreamRef s = None \<longrightarrow> toggleMute s = s \<and> toggleVideo s = s)"
  by (simp add: toggleMute_def toggleVideo_def flipKind_kind flipKind_readyState flipKind_enabled)

theorem toggles_flip_tracks_witness:
  "localStreamRef in_call = Some 10
   \<and> streams in_call 10 =
        [\<lparr>kind = Audio, enabled = True, readyState = Live\<rparr>,
         \<lparr>kind = Video, enabled = True, readyState = Live\<rparr>]
   \<and> map enabled (streams (toggleMute in_call) 10) = [False, True]
   \<and> map enabled (streams (toggleVideo in_call) 10) = [True, False]
   \<and> isMuted (toggleMute in_call)
   \<and> localStreamRef idle = None
   \<and> toggleMute idle = idle \<and> toggleVideo idle = idle"
proof -
  have a: "localStreamRef in_call = Some 10" by (simp add: run_defs)
  have c: "localStreamRef idle = None" by (simp add: run_defs)
  have d: "streams in_call 10 = camera" by (simp add: run_defs)
  have e: "isMuted in_call = False" by (simp add: run_defs)
  show ?thesis
    using toggles_flip_tracks [of in_call 10] toggles_flip_tracks [of idle] a c d e
    by (simp add: camera_def)
qed

subsection \<open>Signalling errors\<close>

text \<open>
  Claim C8. Every \<^verbatim>\<open>error\<close> event of the peer sets the connection status to
  \<^verbatim>\<open>error\<close>, whatever its type; the type decides the console output and nothing else.
\<close>

theorem onError_always_error:
  "connectionStatus (onError err s) = Error
   \<and> onError err s = s\<lparr>connectionStatus := Error, console := console (onError err s)\<rparr>"
  by (simp add: onError_def consoleOut_def Let_def)

subsection \<open>Listeners of a call\<close>

lemma stream_listener_remote:
  "setSrc (Some rs) (remoteVideoRef (runListener l (StreamEvent rs) s)) =
     setSrc (Some rs) (remoteVideoRef s)"
  by (cases l) (simp_all add: attachRemote_def clearTimeout_def)

lemma stream_listeners_remote:
  "setSrc (Some rs) (remoteVideoRef (fold (\<lambda>l. runListener l (StreamEvent rs)) ls s)) =
     setSrc (Some rs) (remoteVideoRef s)"
  by (induction ls arbitrary: s) (simp_all add: stream_listener_remote)

lemma stream_listener_timer:
  "timers s t = None \<Longrightarrow> timers (runListener l (StreamEvent rs) s) t = None"
  by (cases l) (simp_all add: attachRemote_def clearTimeout_def)

lemma stream_listeners_timer:
  "timers s t = None \<Longrightarrow> timers (fold (\<lambda>l. runListener l (StreamEvent rs)) ls s) t = None"
  by (induction ls arbitrary: s) (simp_all add: stream_listener_timer)

lemma stream_listener_call:
  "connectionRef (runListener l (StreamEvent rs) s) = connectionRef s
   \<and> localStreamRef (runListener l (StreamEvent rs) s) = localStreamRef s
   \<and> callActive (runListener l (StreamEvent rs) s) = callActive s
   \<and> apiCalls (runListener l (StreamEvent rs) s) = apiCalls s"
  by (cases l) (simp_all add: attachRemote_def clearTimeout_def)

lemma stream_listeners_call:
  "connectionRef (fold (\<lambda>l. runListener l (StreamEvent rs)) ls s) = connectionRef s
   \<and> localStreamRef (fold (\<lambda>l. runListener l (StreamEvent rs)) ls s) = localStreamRef s
   \<and> callActive (fold (\<lambda>l. runListener l (StreamEvent rs)) ls s) = callActive s
   \<and> apiCalls (fold (\<lambda>l. runListener l (StreamEvent rs)) ls s) = apiCalls s"
  by (induction ls arbitrary: s) (simp_all add: stream_listener_call)

lemma endCall_connectionRef: "connectionRef (endCall s) = None"
  by (cases "connectionRef s"; cases "localStreamRef s")
     (simp_all add: endCall_def api_def stopAll_def)

lemma endCall_callActive: "callActive (endCall s) = False"
  by (simp add: endCall_def Let_def)

subsection \<open>Incoming calls\<close>

lemma onCall_answered:
  assumes "r1 = Some stream \<or> r1 = None \<and> r2 = Some stream"
  obtains s0 where "onCall call r1 r2 s = handleIncomingCall call stream s0"
    and "remoteVideoRef s0 = remoteVideoRef s"
proof (cases r1)
  case None
  with assms have "onCall call r1 r2 s =
      handleIncomingCall call stream
        (api (GetUserMedia False True)
          (consoleOut [ConsoleError [''Failed to get video+audio: '']]
            (api (GetUserMedia True True) (s\<lparr>connectionRef := Some call\<rparr>))))"
    by (simp add: onCall_def getMedia_def Let_def)
  then show ?thesis
    by (rule that) (simp add: api_def consoleOut_def)
next
  case (Some a)
  with assms have "onCall call r1 r2 s =
      handleIncomingCall call stream (api (GetUserMedia True True) (s\<lparr>connectionRef := Some call\<rparr>))"
    by (simp add: onCall_def getMedia_def Let_def)
  then show ?thesis
    by (rule that) (simp add: api_def)
qed

lemma emit_after_incoming:
  "remoteVideoRef (emit call (StreamEvent rs) (handleIncomingCall call stream s)) =
     setSrc (Some rs) (remoteVideoRef s)"
proof -
  let ?s' = "handleIncomingCall call stream s"
  let ?old = "map snd (filter (\<lambda>e. fst e = call) (listeners s))"
  have l: "map snd (filter (\<lambda>e. fst e = call) (listeners ?s')) = ?old @ [IncomingStream]"
    by (simp add: handleIncomingCall_def api_def Let_def)
  have r: "remoteVideoRef ?s' = remoteVideoRef s"
    by (simp add: handleIncomingCall_def api_def Let_def)
  have "remoteVideoRef (emit call (StreamEvent rs) ?s') =
          setSrc (Some rs) (remoteVideoRef (fold (\<lambda>l. runListener l (StreamEvent rs)) ?old ?s'))"
    unfolding emit_def l by (simp add: attachRemote_def)
  also have "\<dots> = setSrc (Some rs) (remoteVideoRef ?s')"
    by (rule stream_listeners_remote)
  finally show ?thesis by (simp add: r)
qed

text \<open>
  Claim C5. An incoming call asks for camera and microphone first and, when that is
  refused, for the microphone alone. When both requests are refused the user gets an
  alert, \<^verbatim>\<open>answer\<close> is not called, and the local stream handle, the video surfaces,
  the call-active flag and the listeners are as before. When one of the two requests is
  granted the call is answered with that stream, the stream becomes the local stream
  and the source of the local video surface, the call is active, and a later \<^verbatim>\<open>stream\<close>
  event of the call makes the remote stream the source of the remote video surface.
\<close>

theorem incoming_call_media_fallback:
  "(r1 = Some stream \<longrightarrow>
      apiCalls (onCall call r1 r2 s) = apiCalls s @ [GetUserMedia True True, Answer call stream])
   \<and> (r1 = None \<and> r2 = Some stream \<longrightarrow>
      apiCalls (onCall call r1 r2 s) =
        apiCalls s @ [GetUserMedia True True, GetUserMedia False True, Answer call stream])
   \<and> (r1 = None \<and> r2 = None \<longrightarrow>
      apiCalls (onCall call r1 r2 s) =
        apiCalls s @ [GetUserMedia True True, GetUserMedia False True,
          Alert ''Could not access camera or microphone. Please check permissions.'']
      \<and> localStreamRef (onCall call r1 r2 s) = localStreamRef s
      \<and> localVideoRef (onCall call r1 r2 s) = localVideoRef s
      \<and> remoteVideoRef (onCall call r1 r2 s) = remoteVideoRef s
      \<and> callActive (onCall call r1 r2 s) = callActive s
      \<and> listeners (onCall call r1 r2 s) = listeners s
      \<and> streams (onCall call r1 r2 s) = streams s)
   \<and> (r1 = Some stream \<or> r1 = None \<and> r2 = Some stream \<longrightarrow>
      localStreamRef (onCall call r1 r2 s) = Some stream
      \<and> localVideoRef (onCall call r1 r2 s) = setSrc (Some stream) (localVideoRef s)
      \<and> callActive (onCall call r1 r2 s)
      \<and> remoteVideoRef (emit call (StreamEvent rs) (onCall call r1 r2 s)) =
          setSrc (Some rs) (remoteVideoRef s))"
proof (intro conjI impI)
  assume a: "r1 = Some stream \<or> r1 = None \<and> r2 = Some stream"
  from a obtain s0 where s0: "onCall call r1 r2 s = handleIncomingCall call stream s0"
    "remoteVideoRef s0 = remoteVideoRef s"
    by (rule onCall_answered)
  show "remoteVideoRef (emit call (StreamEvent rs) (onCall call r1 r2 s)) =
          setSrc (Some rs) (remoteVideoRef s)"
    by (simp add: s0 emit_after_incoming)
qed (auto simp: onCall_def getMedia_def handleIncomingCall_def api_def alert_def consoleOut_def Let_def)

theorem incoming_call_media_fallback_witness:
  "apiCalls (onCall 1 (Some 10) None idle) =
     [NewPeer 0 ''user_7'', GetUserMedia True True, Answer 1 10]
   \<and> apiCalls (onCall 1 None (Some 12) idle) =
     [NewPeer 0 ''user_7'', GetUserMedia True True, GetUserMedia False True, Answer 1 12]
   \<and> apiCalls (onCall 1 None None idle) =
     [NewPeer 0 ''user_7'', GetUserMedia True True, GetUserMedia False True,
      Alert ''Could not access camera or microphone. Please check permissions.'']
   \<and> localStreamRef (onCall 1 None None idle) = None
   \<and> srcOf (localVideoRef (onCall 1 None None idle)) = None
   \<and> \<not> callActive (onCall 1 None None idle)
   \<and> localStreamRef (onCall 1 None (Some 12) idle) = Some 12
   \<and> srcOf (localVideoRef (onCall 1 None (Some 12) idle)) = Some 12
   \<and> callActive (onCall 1 None (Some 12) idle)
   \<and> srcOf (remoteVideoRef (emit 1 (StreamEvent 20) (onCall 1 None (Some 12) idle))) = Some 20
   \<and> srcOf (remoteVideoRef (emit 1 (StreamEvent 20) (onCall 1 (Some 10) None idle))) = Some 20"
proof -
  have a: "apiCalls idle = [NewPeer 0 ''user_7'']"
    "localVideoRef idle = Some \<lparr>srcObject = None\<rparr>"
    "remoteVideoRef idle = Some \<lparr>srcObject = None\<rparr>"
    "localStreamRef idle = None" "callActive idle = False"
    by (simp_all add: run_defs)
  show ?thesis
    using incoming_call_media_fallback [of "Some 10" 10 1 None idle 20]
      incoming_call_media_fallback [of None 12 1 "Some 12" idle 20]
      incoming_call_media_fallback [of None 0 1 None idle 20] a
    by (simp add: srcOf_def setSrc_def)
qed

text \<open>
  Claim C3, on the run \<open>in_call\<close> followed by a second incoming call 2 that is granted
  stream 11. The handles now refer to call 2 and stream 11, but \<^verbatim>\<open>close()\<close> was never
  called on call 1 and both tracks of stream 10 are live; \<^verbatim>\<open>endCall()\<close> afterwards closes
  call 2 and stops stream 11 only.
\<close>

theorem second_incoming_call_replaces_first:
  "connectionRef in_call = Some 1 \<and> localStreamRef in_call = Some 10 \<and> callActive in_call
   \<and> connectionRef (onCall 2 (Some 11) None in_call) = Some 2
   \<and> localStreamRef (onCall 2 (Some 11) None in_call) = Some 11
   \<and> apiCalls (onCall 2 (Some 11) None in_call) =
       [NewPeer 0 ''user_7'', GetUserMedia True True, Answer 1 10,
        GetUserMedia True True, Answer 2 11]
   \<and> map readyState (streams (onCall 2 (Some 11) None in_call) 10) = [Live, Live]
   \<and> apiCalls (endCall (onCall 2 (Some 11) None in_call)) =
       [NewPeer 0 ''user_7'', GetUserMedia True True, Answer 1 10,
        GetUserMedia True True, Answer 2 11, Close 2]
   \<and> map readyState (streams (endCall (onCall 2 (Some 11) None in_call)) 10) = [Live, Live]
   \<and> map readyState (streams (endCall (onCall 2 (Some 11) None in_call)) 11) = [Ended, Ended]"
  by (simp add: run_defs endCall_def)

subsection \<open>Outgoing calls\<close>

lemma emit_after_outgoing:
  assumes "peer s = Some p" "remotePeerId s \<noteq> []"
  shows "emit call (StreamEvent rs) (makeOutgoingCall stream (Some call) s) =
           attachRemote rs (clearTimeout (nextTimer s)
             (fold (\<lambda>l. runListener l (StreamEvent rs))
                (map snd (filter (\<lambda>e. fst e = call) (listeners s)))
                (makeOutgoingCall stream (Some call) s)))"
  using assms
  by (simp add: emit_def makeOutgoingCall_def api_def setTimeout_def Let_def)

text \<open>
  Claim C6. An outgoing call that \<^verbatim>\<open>peer.call\<close> returns arms a timer of 15000 ms. When
  the timer expires while the remote video surface has no source, the user gets an
  alert and \<^verbatim>\<open>endCall()\<close> runs (for the call just made: the trace ends with the alert
  and \<^verbatim>\<open>close()\<close> on the connection). When the \<^verbatim>\<open>stream\<close> event of the call comes first,
  the timer is no longer pending, its expiry changes nothing, the remote stream is on
  the remote surface and the call stays as it was.
\<close>

theorem outgoing_call_timeout:
  "peer s = Some p \<and> remotePeerId s \<noteq> [] \<longrightarrow>
     timers (makeOutgoingCall stream (Some call) s) (nextTimer s) = Some (15000, CallTimeout)
     \<and> (srcOf (remoteVideoRef s) = None \<longrightarrow>
          apiCalls (fireTimer (nextTimer s) (makeOutgoingCall stream (Some call) s)) =
            apiCalls s @ [PeerCall p (remotePeerId s) stream,
              Alert ''Could not connect to peer. Please check the remote ID and try again.'',
              Close call])
     \<and> (timers s' tid = Some (15000, CallTimeout) \<and> srcOf (remoteVideoRef s') = None \<longrightarrow>
          fireTimer tid s' =
            endCall (alert ''Could not connect to peer. Please check the remote ID and try again.''
              (consoleOut [ConsoleError [''Connection timed out'']] (clearTimeout tid s'))))
     \<and> timers (emit call (StreamEvent rs) (makeOutgoingCall stream (Some call) s)) (nextTimer s) = None
     \<and> fireTimer (nextTimer s) (emit call (StreamEvent rs) (makeOutgoingCall stream (Some call) s)) =
         emit call (StreamEvent rs) (makeOutgoingCall stream (Some call) s)
     \<and> remoteVideoRef (emit call (StreamEvent rs) (makeOutgoingCall stream (Some call) s)) =
         setSrc (Some rs) (remoteVideoRef s)
     \<and> connectionRef (emit call (StreamEvent rs) (makeOutgoingCall stream (Some call) s)) = Some call
     \<and> localStreamRef (emit call (StreamEvent rs) (makeOutgoingCall stream (Some call) s)) = Some stream
     \<and> callActive (emit call (StreamEvent rs) (makeOutgoingCall stream (Some call) s))
     \<and> apiCalls (emit call (StreamEvent rs) (makeOutgoingCall stream (Some call) s)) =
         apiCalls s @ [PeerCall p (remotePeerId s) stream]"
proof (intro impI)
  assume a: "peer s = Some p \<and> remotePeerId s \<noteq> []"
  let ?s1 = "makeOutgoingCall stream (Some call) s"
  let ?e = "emit call (StreamEvent rs) ?s1"
  let ?f = "fold (\<lambda>l. runListener l (StreamEvent rs))
              (map snd (filter (\<lambda>e. fst e = call) (listeners s))) ?s1"
  have e: "?e = attachRemote rs (clearTimeout (nextTimer s) ?f)"
    using a by (simp add: emit_after_outgoing)
  have s1: "timers ?s1 (nextTimer s) = Some (15000, CallTimeout)" "remoteVideoRef ?s1 = remoteVideoRef s"
    "connectionRef ?s1 = Some call" "localStreamRef ?s1 = Some stream" "callActive ?s1"
    "apiCalls ?s1 = apiCalls s @ [PeerCall p (remotePeerId s) stream]"
    using a by (simp_all add: makeOutgoingCall_def api_def setTimeout_def Let_def)
  have t: "timers ?e (nextTimer s) = None"
    by (simp add: e attachRemote_def clearTimeout_def)
  have r: "remoteVideoRef ?e = setSrc (Some rs) (remoteVideoRef s)"
    using stream_listeners_remote [of rs _ ?s1]
    by (simp add: e attachRemote_def clearTimeout_def s1)
  have c: "connectionRef ?e = Some call" "localStreamRef ?e = Some stream" "callActive ?e"
    "apiCalls ?e = apiCalls s @ [PeerCall p (remotePeerId s) stream]"
    using stream_listeners_call [of rs _ ?s1]
    by (simp_all add: e attachRemote_def clearTimeout_def s1)
  have f: "fireTimer (nextTimer s) ?e = ?e"
    by (simp add: fireTimer_def t)
  have g: "timers s' tid = Some (15000, CallTimeout) \<and> srcOf (remoteVideoRef s') = None \<longrightarrow>
          fireTimer tid s' =
            endCall (alert ''Could not connect to peer. Please check the remote ID and try again.''
              (consoleOut [ConsoleError [''Connection timed out'']] (clearTimeout tid s')))"
    by (simp add: fireTimer_def clearTimeout_def)
  have h: "srcOf (remoteVideoRef s) = None \<longrightarrow>
          apiCalls (fireTimer (nextTimer s) ?s1) =
            apiCalls s @ [PeerCall p (remotePeerId s) stream,
              Alert ''Could not connect to peer. Please check the remote ID and try again.'',
              Close call]"
    by (simp add: fireTimer_def s1 clearTimeout_def endCall_def alert_def api_def consoleOut_def
        stopAll_def Let_def)
  show "timers ?s1 (nextTimer s) = Some (15000, CallTimeout)
     \<and> (srcOf (remoteVideoRef s) = None \<longrightarrow>
          apiCalls (fireTimer (nextTimer s) ?s1) =
            apiCalls s @ [PeerCall p (remotePeerId s) stream,
              Alert ''Could not connect to peer. Please check the remote ID and try again.'',
              Close call])
     \<and> (timers s' tid = Some (15000, CallTimeout) \<and> srcOf (remoteVideoRef s') = None \<longrightarrow>
          fireTimer tid s' =
            endCall (alert ''Could not connect to peer. Please check the remote ID and try again.''
              (consoleOut [ConsoleError [''Connection timed out'']] (clearTimeout tid s'))))
     \<and> timers ?e (nextTimer s) = None
     \<and> fireTimer (nextTimer s) ?e = ?e
     \<and> remoteVideoRef ?e = setSrc (Some rs) (remoteVideoRef s)
     \<and> connectionRef ?e = Some call
     \<and> localStreamRef ?e = Some stream
     \<and> callActive ?e
     \<and> apiCalls ?e = apiCalls s @ [PeerCall p (remotePeerId s) stream]"
    using s1(1) h g t f r c by blast
qed

theorem outgoing_call_timeout_witness:
  "peer ready = Some 0 \<and> remotePeerId ready = ''user_9'' \<and> nextTimer ready = 1
   \<and> srcOf (remoteVideoRef ready) = None
   \<and> timers (makeOutgoingCall 10 (Some 5) ready) 1 = Some (15000, CallTimeout)
   \<and> apiCalls (fireTimer 1 (makeOutgoingCall 10 (Some 5) ready)) =
       [NewPeer 0 ''user_7'', PeerCall 0 ''user_9'' 10,
        Alert ''Could not connect to peer. Please check the remote ID and try again.'', Close 5]
   \<and> connectionRef (fireTimer 1 (makeOutgoingCall 10 (Some 5) ready)) = None
   \<and> \<not> callActive (fireTimer 1 (makeOutgoingCall 10 (Some 5) ready))
   \<and> timers (emit 5 (StreamEvent 20) (makeOutgoingCall 10 (Some 5) ready)) 1 = None
   \<and> fireTimer 1 (emit 5 (StreamEvent 20) (makeOutgoingCall 10 (Some 5) ready)) =
       emit 5 (StreamEvent 20) (makeOutgoingCall 10 (Some 5) ready)
   \<and> srcOf (remoteVideoRef (emit 5 (StreamEvent 20) (makeOutgoingCall 10 (Some 5) ready))) = Some 20
   \<and> callActive (emit 5 (StreamEvent 20) (makeOutgoingCall 10 (Some 5) ready))"
proof -
  let ?s1 = "makeOutgoingCall 10 (Some 5) ready"
  let ?e = "emit 5 (StreamEvent 20) ?s1"
  have a: "peer ready = Some 0" "remotePeerId ready = ''user_9''" "nextTimer ready = 1"
    "remoteVideoRef ready = Some \<lparr>srcObject = None\<rparr>" "apiCalls ready = [NewPeer 0 ''user_7'']"
    by (simp_all add: run_defs)
  have h: "peer ready = Some 0 \<and> remotePeerId ready \<noteq> []"
    by (simp add: a)
  have r: "srcOf (remoteVideoRef ready) = None"
    by (simp add: a srcOf_def)
  have r1: "srcOf (remoteVideoRef ?s1) = None"
    by (simp add: makeOutgoingCall_def a api_def setTimeout_def srcOf_def Let_def)
  note t = outgoing_call_timeout [of ready 0 10 5 ?s1 "nextTimer ready" 20, THEN mp, OF h]
  have armed: "timers ?s1 (nextTimer ready) = Some (15000, CallTimeout)"
    using t by blast
  have trace: "apiCalls (fireTimer (nextTimer ready) ?s1) =
      apiCalls ready @ [PeerCall 0 (remotePeerId ready) 10,
        Alert ''Could not connect to peer. Please check the remote ID and try again.'', Close 5]"
    using t r by blast
  have "fireTimer (nextTimer ready) ?s1 =
      endCall (alert ''Could not connect to peer. Please check the remote ID and try again.''
        (consoleOut [ConsoleError [''Connection timed out'']] (clearTimeout (nextTimer ready) ?s1)))"
    using t armed r1 by blast
  then have aborted: "connectionRef (fireTimer (nextTimer ready) ?s1) = None"
    "\<not> callActive (fireTimer (nextTimer ready) ?s1)"
    by (simp_all add: endCall_connectionRef endCall_callActive)
  have cancelled: "timers ?e (nextTimer ready) = None" "fireTimer (nextTimer ready) ?e = ?e"
    "remoteVideoRef ?e = setSrc (Some 20) (remoteVideoRef ready)" "callActive ?e"
    using t by blast+
  show ?thesis
    using a r armed trace aborted cancelled by (simp add: srcOf_def setSrc_def)
qed

subsection \<open>Initialization and retry\<close>

text \<open>
  Claim C4, on the first run of the effect with neither an \<^verbatim>\<open>open\<close> nor an \<^verbatim>\<open>error\<close>
  event. The first render has the status \<^verbatim>\<open>disconnected\<close>, which is what the timer's
  callback compares with \<^verbatim>\<open>'connecting'\<close>: when the timer expires the status stays
  \<^verbatim>\<open>connecting\<close>.
\<close>

theorem first_run_timeout_keeps_connecting:
  "connectionStatus (initial None 7 page_heap) = Disconnected
   \<and> connectionStatus (mount None 7 page_heap) = Connecting
   \<and> timers (mount None 7 page_heap) 0 = Some (15000, ConnectionTimeout Disconnected)
   \<and> connectionStatus (fireTimer 0 (mount None 7 page_heap)) = Connecting"
  by (simp add: run_defs fireTimer_def)

text \<open>
  The \<^verbatim>\<open>open\<close> event sets the status to \<^verbatim>\<open>connected\<close>, exposes the identity the server
  gave, and cancels the connection timer of its run of the effect.
\<close>

theorem onOpen_connects:
  "connectionStatus (onOpen connectionTimeout ident s) = Connected
   \<and> peerId (onOpen connectionTimeout ident s) = ident
   \<and> timers (onOpen connectionTimeout ident s) connectionTimeout = None
   \<and> fireTimer connectionTimeout (onOpen connectionTimeout ident s) =
       onOpen connectionTimeout ident s"
  by (simp add: onOpen_def fireTimer_def consoleOut_def clearTimeout_def Let_def)

text \<open>
  Claim C7, on the state \<open>failed\<close> (identity \<^verbatim>\<open>user_7\<close>, status \<^verbatim>\<open>error\<close>) when
  \<^verbatim>\<open>Math.random\<close> gives 7 again. The retry destroys the peer and sets the status to
  \<^verbatim>\<open>connecting\<close>, but the identity after it is the identity before it, the effect does
  not run again, and no new peer is made.
\<close>

theorem retry_can_repeat_identity:
  "actualUsername failed = ''user_7'' \<and> connectionStatus failed = Error \<and> peer failed = Some 0
   \<and> actualUsername (retry 7 failed) = ''user_7''
   \<and> stableIdRef (retry 7 failed) = ''user_7''
   \<and> peer (retry 7 failed) = None
   \<and> connectionStatus (retry 7 failed) = Connecting
   \<and> apiCalls (retry 7 failed) =
       [NewPeer 0 ''user_7'', PeerDestroy 0,
        Alert ''Attempting to reconnect with a new ID. Please wait a moment...'']"
  by (simp add: failed_def onError_def retry_def commit_def retryConnection_def run_defs)

text \<open>
  A retry that draws an identity other than the current one destroys the peer, makes a
  new peer under the new identity and leaves the status \<^verbatim>\<open>connecting\<close>. The timer of
  this run of the effect was armed in a render whose status is \<^verbatim>\<open>connecting\<close>, so its
  expiry sets the status to \<^verbatim>\<open>error\<close>.
\<close>

theorem retry_reinitializes:
  "peer s = Some p \<and> effectCleanup s = Some (p, t)
     \<and> actualUsername s \<noteq> ''user_'' @ string_of_nat rnd \<longrightarrow>
   actualUsername (retry rnd s) = ''user_'' @ string_of_nat rnd
   \<and> peerId (retry rnd s) = []
   \<and> peer (retry rnd s) = Some (nextPeer s)
   \<and> connectionStatus (retry rnd s) = Connecting
   \<and> apiCalls (retry rnd s) =
       apiCalls s @ [PeerDestroy p,
         Alert ''Attempting to reconnect with a new ID. Please wait a moment...'',
         PeerDestroy p, NewPeer (nextPeer s) (''user_'' @ string_of_nat rnd)]
   \<and> timers (retry rnd s) (nextTimer s) = Some (15000, ConnectionTimeout Connecting)
   \<and> connectionStatus (fireTimer (nextTimer s) (retry rnd s)) = Error"
  by (cases "localStreamRef s")
     (auto simp: retry_def commit_def retryConnection_def cleanup_def initEffect_def api_def alert_def
       consoleOut_def setTimeout_def clearTimeout_def stopAll_def fireTimer_def Let_def)

theorem retry_reinitializes_witness:
  "peer failed = Some 0 \<and> effectCleanup failed = Some (0, 0)
   \<and> actualUsername failed = ''user_7''
   \<and> actualUsername (retry 407 failed) = ''user_407''
   \<and> peer (retry 407 failed) = Some 1
   \<and> connectionStatus (retry 407 failed) = Connecting
   \<and> connectionStatus (fireTimer 1 (retry 407 failed)) = Error"
proof -
  have a: "peer failed = Some 0" "effectCleanup failed = Some (0, 0)"
    "actualUsername failed = ''user_7''" "nextPeer failed = 1" "nextTimer failed = 1"
    by (simp_all add: failed_def onError_def run_defs)
  have b: "string_of_nat 407 = ''407''" by (simp add: digit_char_def)
  show ?thesis
    using retry_reinitializes [of failed 0 0 407] a b by simp
qed

end
